theory Spec2Isabelle
  imports Main "HOL-Library.Word"
begin

section \<open>Frontend: authentication utilities (lib/auth)\<close>

text \<open>
  What the authentication utilities touch of the browser: the local storage (a map from
  keys to strings; \<^verbatim>\<open>getItem\<close> returns \<^verbatim>\<open>null\<close> for a missing key) and
  \<^verbatim>\<open>window.location.href\<close>. During server-side rendering \<^verbatim>\<open>window\<close> is
  undefined and there is no local storage: the global state is \<open>None\<close>.
\<close>

record window =
  localStorage :: "string \<rightharpoonup> string"
  location_href :: string

type_synonym global = "window option"

text \<open>The entry of the local storage under a key, if there is a local storage.\<close>

definition getItem :: "global \<Rightarrow> string \<Rightarrow> string option" where
  "getItem g key = (case g of None \<Rightarrow> None | Some w \<Rightarrow> localStorage w key)"

definition getToken :: "global \<Rightarrow> string option" where
  "getToken g = (case g of None \<Rightarrow> None | Some w \<Rightarrow> localStorage w ''auth_token'')"

definition setToken :: "string \<Rightarrow> global \<Rightarrow> global" where
  "setToken token g =
     (case g of
        None \<Rightarrow> None
      | Some w \<Rightarrow> Some (w\<lparr>localStorage := (localStorage w)(''auth_token'' \<mapsto> token)\<rparr>))"

definition removeToken :: "global \<Rightarrow> global" where
  "removeToken g =
     (case g of
        None \<Rightarrow> None
      | Some w \<Rightarrow> Some (w\<lparr>localStorage := (localStorage w)(''auth_token'' := None)\<rparr>))"

definition removeUser :: "global \<Rightarrow> global" where
  "removeUser g =
     (case g of
        None \<Rightarrow> None
      | Some w \<Rightarrow> Some (w\<lparr>localStorage := (localStorage w)(''user'' := None)\<rparr>))"

text \<open>
  \<^verbatim>\<open>!!token\<close>: JavaScript truthiness of a \<^verbatim>\<open>string | null\<close>. Both
  \<^verbatim>\<open>null\<close> and the empty string are falsy.
\<close>

definition truthy_token :: "string option \<Rightarrow> bool" where
  "truthy_token t = (case t of None \<Rightarrow> False | Some s \<Rightarrow> s \<noteq> [])"

definition isAuthenticated :: "global \<Rightarrow> bool" where
  "isAuthenticated g = truthy_token (getToken g)"

definition logout :: "global \<Rightarrow> global" where
  "logout g =
     (let g1 = removeToken g; g2 = removeUser g1
      in case g2 of None \<Rightarrow> None | Some w \<Rightarrow> Some (w\<lparr>location_href := ''/login''\<rparr>))"


section \<open>Frontend: the API client (lib/api)\<close>

text \<open>
  A parsed JSON value, as \<^verbatim>\<open>response.json()\<close> resolves to. \<open>'n\<close> is the type of
  JavaScript numbers; what the client needs of them is given by the engine and is a
  parameter of the model. An object keeps its members in source order; a later
  duplicate key overrides.
\<close>

datatype 'n json =
    JNull
  | JBool bool
  | JNum 'n
  | JStr string
  | JArr "'n json list"
  | JObj "(string \<times> 'n json) list"

text \<open>
  The two operations of the engine on a number: whether it is falsy (zero) and its
  string form (\<^verbatim>\<open>Number::toString\<close>).
\<close>

record 'n number_ops =
  number_falsy :: "'n \<Rightarrow> bool"
  number_to_string :: "'n \<Rightarrow> string"

text \<open>
  The \<^verbatim>\<open>Response\<close> of \<^verbatim>\<open>fetch\<close>: the status code, an unsigned short, and the
  body, which is \<open>None\<close> when \<^verbatim>\<open>response.json()\<close> rejects (the body is not JSON, or
  empty). \<^verbatim>\<open>response.ok\<close> is true for the statuses 200 to 299.
\<close>

record 'n response =
  status :: "16 word"
  body :: "'n json option"

definition ok :: "'n response \<Rightarrow> bool" where
  "ok r = (200 \<le> unat (status r) \<and> unat (status r) \<le> 299)"

text \<open>
  What a call can throw: \<^verbatim>\<open>new Error(message)\<close> built by \<^verbatim>\<open>request\<close> itself,
  the rejection of \<^verbatim>\<open>fetch\<close> (no response at all), the rejection of
  \<^verbatim>\<open>response.json()\<close> on a successful response, the \<^verbatim>\<open>TypeError\<close> of reading a
  property of \<^verbatim>\<open>null\<close>, and the \<^verbatim>\<open>TypeError\<close> of converting to a string an object
  that has no usable \<^verbatim>\<open>toString\<close>.
\<close>

datatype thrown =
    Error string
  | FetchRejected
  | JsonRejected
  | NullPropertyError
  | NotPrimitiveError

definition digit_char :: "nat \<Rightarrow> char" where
  "digit_char n = ''0123456789'' ! n"

fun show_nat :: "nat \<Rightarrow> string" where
  "show_nat n =
     (if n < 10 then [digit_char n] else show_nat (n div 10) @ [digit_char (n mod 10)])"

declare show_nat.simps [simp del]

text \<open>
  \<^verbatim>\<open>Array.prototype.join\<close> over the string forms of the elements: the first element
  whose conversion throws ends the join with that exception.
\<close>

fun join_comma :: "(thrown + string) list \<Rightarrow> thrown + string" where
  "join_comma [] = Inr []"
| "join_comma [x] = x"
| "join_comma (x # y # ys) =
     (case x of
        Inl e \<Rightarrow> Inl e
      | Inr s \<Rightarrow>
          (case join_comma (y # ys) of
             Inl e \<Rightarrow> Inl e
           | Inr rest \<Rightarrow> Inr (s @ '','' @ rest)))"

text \<open>
  JavaScript's \<^verbatim>\<open>ToString\<close>, which \<^verbatim>\<open>new Error(v)\<close> applies to its argument.
  An array joins its elements with commas, \<^verbatim>\<open>null\<close> elements printing as nothing.
  An object parsed from JSON prints as \<^verbatim>\<open>[object Object]\<close> through the inherited
  \<^verbatim>\<open>toString\<close>; when it has a member named \<^verbatim>\<open>toString\<close> of its own, that member
  is not callable, \<^verbatim>\<open>valueOf\<close> gives no primitive either, and the conversion throws.
\<close>

fun to_string :: "'n number_ops \<Rightarrow> 'n json \<Rightarrow> thrown + string" where
  "to_string ops JNull = Inr ''null''"
| "to_string ops (JBool b) = Inr (if b then ''true'' else ''false'')"
| "to_string ops (JNum n) = Inr (number_to_string ops n)"
| "to_string ops (JStr s) = Inr s"
| "to_string ops (JArr xs) =
     join_comma (map (\<lambda>x. if x = JNull then Inr [] else to_string ops x) xs)"
| "to_string ops (JObj kvs) =
     (if ''toString'' \<in> fst ` set kvs then Inl NotPrimitiveError
      else Inr ''[object Object]'')"

text \<open>Truthiness of a value that may be \<^verbatim>\<open>undefined\<close> (\<open>None\<close>).\<close>

definition truthy :: "'n number_ops \<Rightarrow> 'n json option \<Rightarrow> bool" where
  "truthy ops v =
     (case v of
        None \<Rightarrow> False
      | Some JNull \<Rightarrow> False
      | Some (JBool b) \<Rightarrow> b
      | Some (JNum n) \<Rightarrow> \<not> number_falsy ops n
      | Some (JStr s) \<Rightarrow> s \<noteq> []
      | Some (JArr xs) \<Rightarrow> True
      | Some (JObj kvs) \<Rightarrow> True)"

text \<open>
  \<^verbatim>\<open>errorData.detail\<close>: reading the property of \<^verbatim>\<open>null\<close> throws; an object
  gives its member (the last one of that name) or \<^verbatim>\<open>undefined\<close>; every other
  value has no such property.
\<close>

definition get_detail :: "'n json \<Rightarrow> thrown + 'n json option" where
  "get_detail errorData =
     (case errorData of
        JNull \<Rightarrow> Inl NullPropertyError
      | JObj kvs \<Rightarrow> Inr (map_of (rev kvs) ''detail'')
      | _ \<Rightarrow> Inr None)"

text \<open>
  \<^verbatim>\<open>await response.json().catch(() => ({}))\<close>: the parsed body, or the empty
  object when parsing rejects.
\<close>

definition errorData :: "'n response \<Rightarrow> 'n json" where
  "errorData r = (case body r of None \<Rightarrow> JObj [] | Some j \<Rightarrow> j)"

text \<open>
  The message of \<^verbatim>\<open>new Error(errorData.detail || fallback)\<close>: the string form of
  the detail when it is truthy, the fallback otherwise.
\<close>

definition detail_or :: "'n number_ops \<Rightarrow> 'n json option \<Rightarrow> string \<Rightarrow> thrown + string" where
  "detail_or ops d fallback =
     (case d of
        None \<Rightarrow> Inr fallback
      | Some v \<Rightarrow> if truthy ops (Some v) then to_string ops v else Inr fallback)"

text \<open>
  \<^verbatim>\<open>ApiClient.request\<close>, from the point where \<^verbatim>\<open>fetch\<close> settles. The argument
  is the outcome of \<^verbatim>\<open>fetch(url, config)\<close>; the \<^verbatim>\<open>catch\<close> block logs and
  rethrows, so every error passes through unchanged.
\<close>

definition request :: "'n number_ops \<Rightarrow> thrown + 'n response \<Rightarrow> thrown + 'n json" where
  "request ops fetched =
     (case fetched of
        Inl e \<Rightarrow> Inl e
      | Inr r \<Rightarrow>
          if \<not> ok r then
            (case get_detail (errorData r) of
               Inl e \<Rightarrow> Inl e
             | Inr d \<Rightarrow>
                 (case detail_or ops d
                         (''HTTP error! status: '' @ show_nat (unat (status r))) of
                    Inl e \<Rightarrow> Inl e
                  | Inr message \<Rightarrow> Inl (Error message)))
          else
            (case body r of None \<Rightarrow> Inl JsonRejected | Some j \<Rightarrow> Inr j))"

text \<open>
  Numbers for evaluating the client on concrete inputs: integers, printed in decimal.
\<close>

definition int_ops :: "int number_ops" where
  "int_ops =
     \<lparr>number_falsy = (\<lambda>i. i = 0),
      number_to_string = (\<lambda>i. if i < 0 then CHR ''-'' # show_nat (nat (- i)) else show_nat (nat i))\<rparr>"

section \<open>Backend: the encryption service (Secret Vault)\<close>

type_synonym byte = "8 word"
type_synonym bytes = "byte list"

text \<open>
  Everything a backend operation can raise. \<open>NonceError\<close>, \<open>KeyLengthError\<close> and
  \<open>MacCheckFailed\<close> are the \<^verbatim>\<open>ValueError\<close>s of the AES-GCM cipher,
  \<open>Base64Error\<close> is \<^verbatim>\<open>binascii.Error\<close>.
\<close>

datatype error =
    AccessDeniedError string
  | ConnectionNotFound
  | DuplicateKey
  | NonceError
  | KeyLengthError
  | MacCheckFailed
  | Base64Error
  | UnicodeDecodeError
  | IntrospectionError string
  | HTTPException nat string

text \<open>
  The library calls of \<^verbatim>\<open>EncryptionService\<close>, which are not code of this repository,
  are parameters of the model:
  \<^item> \<open>encode\<close>, \<open>decode\<close>: \<^verbatim>\<open>str.encode()\<close> and \<^verbatim>\<open>bytes.decode()\<close>
    (\<open>None\<close>: \<^verbatim>\<open>UnicodeDecodeError\<close>);
  \<^item> \<open>b64encode\<close>, \<open>b64decode\<close>: \<^verbatim>\<open>base64.b64encode(..).decode()\<close> and
    \<^verbatim>\<open>base64.b64decode(s.encode())\<close> (\<open>None\<close>: \<^verbatim>\<open>binascii.Error\<close>);
  \<^item> \<open>encrypt_and_digest key nonce plaintext\<close>: ciphertext and tag of
    \<^verbatim>\<open>AES.new(key, AES.MODE_GCM, nonce=nonce)\<close>;
  \<^item> \<open>decrypt_and_verify key nonce ciphertext tag\<close>: the plaintext, or \<open>None\<close> when
    the MAC check fails.
\<close>

record crypto_lib =
  encode :: "string \<Rightarrow> bytes"
  decode :: "bytes \<Rightarrow> string option"
  b64encode :: "bytes \<Rightarrow> string"
  b64decode :: "string \<Rightarrow> bytes option"
  encrypt_and_digest :: "bytes \<Rightarrow> bytes \<Rightarrow> bytes \<Rightarrow> bytes \<times> bytes"
  decrypt_and_verify :: "bytes \<Rightarrow> bytes \<Rightarrow> bytes \<Rightarrow> bytes \<Rightarrow> bytes option"

text \<open>\<^verbatim>\<open>AES.new\<close> accepts keys of 16, 24 and 32 bytes only.\<close>

definition valid_key :: "bytes \<Rightarrow> bool" where
  "valid_key key = (length key = 16 \<or> length key = 24 \<or> length key = 32)"

text \<open>
  \<^verbatim>\<open>AES.new(key, AES.MODE_GCM)\<close> is called without a nonce, so the library draws one
  at random: 16 bytes for AES in GCM mode. The tag has the default length of 16 bytes.
\<close>

definition gcm_default_nonce_length :: nat where
  "gcm_default_nonce_length = 16"

definition gcm_tag_length :: nat where
  "gcm_tag_length = 16"

text \<open>
  \<^verbatim>\<open>encrypt_database_password\<close>. \<open>key\<close> is \<^verbatim>\<open>settings.ENCRYPTION_KEY\<close>,
  \<open>nonce\<close> the random nonce the cipher object drew (\<^verbatim>\<open>cipher.nonce\<close>).
\<close>

definition encrypt_database_password ::
    "crypto_lib \<Rightarrow> bytes \<Rightarrow> bytes \<Rightarrow> string \<Rightarrow> error + string" where
  "encrypt_database_password lib key nonce password =
     (if \<not> valid_key key then Inl KeyLengthError
      else
        (case encrypt_and_digest lib key nonce (encode lib password) of
           (ciphertext, tag) \<Rightarrow> Inr (b64encode lib (nonce @ tag @ ciphertext))))"

text \<open>
  \<^verbatim>\<open>decrypt_database_password\<close>. Python slices never fail: \<^verbatim>\<open>data[:12]\<close>,
  \<^verbatim>\<open>data[12:28]\<close> and \<^verbatim>\<open>data[28:]\<close> are \<open>take\<close> and \<open>drop\<close>. The cipher
  refuses an empty nonce before it looks at the key.
\<close>

definition decrypt_database_password ::
    "crypto_lib \<Rightarrow> bytes \<Rightarrow> string \<Rightarrow> error + string" where
  "decrypt_database_password lib key encrypted_password =
     (case b64decode lib encrypted_password of
        None \<Rightarrow> Inl Base64Error
      | Some data \<Rightarrow>
          (let nonce = take 12 data;
               tag = take 16 (drop 12 data);
               ciphertext = drop 28 data
           in if nonce = [] then Inl NonceError
              else if \<not> valid_key key then Inl KeyLengthError
              else
                (case decrypt_and_verify lib key nonce ciphertext tag of
                   None \<Rightarrow> Inl MacCheckFailed
                 | Some plaintext \<Rightarrow>
                     (case decode lib plaintext of
                        None \<Rightarrow> Inl UnicodeDecodeError
                      | Some password \<Rightarrow> Inr password))))"

text \<open>
  What the libraries guarantee, as far as the theorems below use it: UTF-8 and base64
  decode what they encoded, decoding is the inverse of encoding, GCM keeps the length of
  the text and produces a tag of 16 bytes, and decryption accepts what encryption
  produced.
\<close>

definition lib_contract :: "crypto_lib \<Rightarrow> bool" where
  "lib_contract lib \<longleftrightarrow>
     (\<forall>s. decode lib (encode lib s) = Some s)
     \<and> (\<forall>p s. decode lib p = Some s \<longrightarrow> encode lib s = p)
     \<and> (\<forall>bs. b64decode lib (b64encode lib bs) = Some bs)
     \<and> (\<forall>k n p. length (fst (encrypt_and_digest lib k n p)) = length p
                \<and> length (snd (encrypt_and_digest lib k n p)) = gcm_tag_length)
     \<and> (\<forall>k n c t p. decrypt_and_verify lib k n c t = Some p \<longrightarrow> length p = length c)
     \<and> (\<forall>k n p. decrypt_and_verify lib k n (fst (encrypt_and_digest lib k n p))
                   (snd (encrypt_and_digest lib k n p)) = Some p)"


text \<open>
  A small library that meets the contract, for evaluating the service on concrete
  inputs: characters and bytes correspond one to one, the cipher leaves the text as it
  is and tags it with sixteen zero bytes.
\<close>

definition toy_lib :: crypto_lib where
  "toy_lib =
     \<lparr>encode = map (\<lambda>c. of_nat (of_char c)),
      decode = (\<lambda>bs. Some (map (\<lambda>b. char_of (unat b)) bs)),
      b64encode = map (\<lambda>b. char_of (unat b)),
      b64decode = (\<lambda>s. Some (map (\<lambda>c. of_nat (of_char c)) s)),
      encrypt_and_digest = (\<lambda>k n p. (p, replicate 16 0)),
      decrypt_and_verify = (\<lambda>k n c t. if t = replicate 16 0 then Some c else None)\<rparr>"

section \<open>Backend: the platform database and tenant access\<close>

type_synonym uuid = string

text \<open>A detected schema: each table with its columns and their types, in order.\<close>

type_synonym schema = "(string \<times> (string \<times> string) list) list"

text \<open>A row of \<^verbatim>\<open>database_connections\<close>. Timestamps are seconds.\<close>

record database_connection =
  conn_id :: uuid
  user_id :: uuid
  conn_name :: string
  database_type :: string
  host :: "string option"
  port :: "nat option"
  database_name :: "string option"
  username :: "string option"
  password_encrypted :: "string option"
  connection_string_encrypted :: "string option"
  schema_json :: "schema option"
  is_active :: bool
  last_connected_at :: "nat option"
  created_at :: nat
  updated_at :: nat

type_synonym registry = "uuid \<rightharpoonup> database_connection"

text \<open>
  Modelled from the spec: \<^verbatim>\<open>get_connection_config\<close> is called by
  \<^verbatim>\<open>DatabaseConnectionService\<close> and not defined in the sources. It is the lookup of a
  row of \<^verbatim>\<open>database_connections\<close> by its identifier; a missing row is an error.
\<close>

definition get_connection_config :: "registry \<Rightarrow> uuid \<Rightarrow> error + database_connection" where
  "get_connection_config reg connection_id =
     (case reg connection_id of None \<Rightarrow> Inl ConnectionNotFound | Some c \<Rightarrow> Inr c)"

text \<open>
  Modelled from the spec: \<^verbatim>\<open>get_connection\<close> is called by
  \<^verbatim>\<open>AccessControlService\<close> and \<^verbatim>\<open>SchemaDetectionService\<close> and not defined in the
  sources. It is the same lookup.
\<close>

definition get_connection :: "registry \<Rightarrow> uuid \<Rightarrow> error + database_connection" where
  "get_connection reg connection_id =
     (case reg connection_id of None \<Rightarrow> Inl ConnectionNotFound | Some c \<Rightarrow> Inr c)"

subsection \<open>AccessControlService\<close>

definition user_has_access :: "registry \<Rightarrow> uuid \<Rightarrow> uuid \<Rightarrow> error + bool" where
  "user_has_access reg uid connection_id =
     (case get_connection reg connection_id of
        Inl e \<Rightarrow> Inl e
      | Inr connection \<Rightarrow> Inr (user_id connection = uid))"

text \<open>A row of \<^verbatim>\<open>query_history\<close>, as far as the services fill it.\<close>

record 'r query_history =
  qh_user_id :: uuid
  qh_database_connection_id :: uuid
  qh_query :: string
  qh_result :: 'r

definition filter_queries_by_user :: "uuid \<Rightarrow> 'r query_history list \<Rightarrow> 'r query_history list" where
  "filter_queries_by_user uid queries = filter (\<lambda>q. qh_user_id q = uid) queries"

subsection \<open>DatabaseConnectionService\<close>

text \<open>
  The three connection constructors open a session on a client database; they are
  parameters of the model. \<open>'h\<close> is the type of an open connection.
\<close>

record 'h drivers =
  create_postgresql_connection :: "database_connection \<Rightarrow> error + 'h"
  create_mysql_connection :: "database_connection \<Rightarrow> error + 'h"
  create_sqlite_connection :: "database_connection \<Rightarrow> error + 'h"

text \<open>
  \<^verbatim>\<open>create_dynamic_connection\<close>: a chain of \<^verbatim>\<open>if\<close>/\<^verbatim>\<open>elif\<close> on the database
  type with no \<^verbatim>\<open>else\<close>; for any other type the Python function returns
  \<^verbatim>\<open>None\<close>.
\<close>

definition create_dynamic_connection ::
    "'h drivers \<Rightarrow> database_connection \<Rightarrow> error + 'h option" where
  "create_dynamic_connection drv connection_config =
     (if database_type connection_config = ''postgresql'' then
        map_sum id Some (create_postgresql_connection drv connection_config)
      else if database_type connection_config = ''mysql'' then
        map_sum id Some (create_mysql_connection drv connection_config)
      else if database_type connection_config = ''sqlite'' then
        map_sum id Some (create_sqlite_connection drv connection_config)
      else Inr None)"

definition get_client_connection ::
    "'h drivers \<Rightarrow> registry \<Rightarrow> uuid \<Rightarrow> uuid \<Rightarrow> error + 'h option" where
  "get_client_connection drv reg uid connection_id =
     (case get_connection_config reg connection_id of
        Inl e \<Rightarrow> Inl e
      | Inr connection \<Rightarrow>
          (case user_has_access reg uid connection_id of
             Inl e \<Rightarrow> Inl e
           | Inr allowed \<Rightarrow>
               if \<not> allowed then Inl (AccessDeniedError ''User cannot access this database'')
               else create_dynamic_connection drv connection))"

subsection \<open>MultiTenantQueryService\<close>

text \<open>
  \<^verbatim>\<open>execute_query\<close>. \<open>run\<close> is \<^verbatim>\<open>connection.execute\<close> on the client database;
  the state is the query history. \<^verbatim>\<open>None.execute\<close> raises when the database type
  was not one of the three.
\<close>

datatype 'r outcome = Raised error | NoneHasNoExecute | Returned 'r

definition execute_query ::
    "'h drivers \<Rightarrow> ('h \<Rightarrow> string \<Rightarrow> error + 'r) \<Rightarrow> registry \<Rightarrow> 'r query_history list
      \<Rightarrow> uuid \<Rightarrow> uuid \<Rightarrow> string \<Rightarrow> 'r outcome \<times> 'r query_history list" where
  "execute_query drv run reg history uid connection_id query =
     (case get_client_connection drv reg uid connection_id of
        Inl e \<Rightarrow> (Raised e, history)
      | Inr None \<Rightarrow> (NoneHasNoExecute, history)
      | Inr (Some connection) \<Rightarrow>
          (case run connection query of
             Inl e \<Rightarrow> (Raised e, history)
           | Inr result \<Rightarrow>
               (Returned result,
                history @ [\<lparr>qh_user_id = uid, qh_database_connection_id = connection_id,
                             qh_query = query, qh_result = result\<rparr>])))"

subsection \<open>SchemaDetectionService\<close>

text \<open>
  Modelled from the spec: \<^verbatim>\<open>cache_schema\<close> is called and not defined in the sources.
  It persists the snapshot onto the connection's row (the column \<^verbatim>\<open>schema_json\<close>).
\<close>

definition cache_schema :: "registry \<Rightarrow> uuid \<Rightarrow> schema \<Rightarrow> registry" where
  "cache_schema reg connection_id s =
     (case reg connection_id of
        None \<Rightarrow> reg
      | Some c \<Rightarrow> reg(connection_id \<mapsto> c\<lparr>schema_json := Some s\<rparr>))"

text \<open>
  \<^verbatim>\<open>detect_client_schema\<close>. \<open>analyze\<close> is \<^verbatim>\<open>analyze_database_schema\<close>, the
  introspection of the client database, which may fail. The function has no
  \<^verbatim>\<open>try\<close>: a failure of the introspection leaves it as the exception raised.
\<close>

definition detect_client_schema ::
    "(database_connection \<Rightarrow> error + schema) \<Rightarrow> registry \<Rightarrow> uuid
      \<Rightarrow> (error + schema) \<times> registry" where
  "detect_client_schema analyze reg connection_id =
     (case get_connection reg connection_id of
        Inl e \<Rightarrow> (Inl e, reg)
      | Inr connection \<Rightarrow>
          (case analyze connection of
             Inl e \<Rightarrow> (Inl e, reg)
           | Inr s \<Rightarrow> (Inr s, cache_schema reg connection_id s)))"

subsection \<open>Registering and editing connections\<close>


















section \<open>Backend: session store, cache store and rate limits (MongoDB)\<close>

subsection \<open>CacheStore\<close>

text \<open>
  A document of the cache collection: the value names the user, the connection and the
  query it was computed for; \<^verbatim>\<open>expires_at\<close> and \<^verbatim>\<open>created_at\<close> are seconds.
  The collection is a map from the (hashed) key to the document.
\<close>

record 'r cache_value =
  cv_user_id :: uuid
  cv_connection_id :: uuid
  cv_query :: string
  cv_result :: 'r
  cv_cached_at :: nat

record 'r cache_entry =
  ce_value :: "'r cache_value"
  ce_expires_at :: nat
  ce_created_at :: nat

type_synonym ('k, 'r) cache = "'k \<rightharpoonup> 'r cache_entry"

text \<open>
  Modelled from the spec: the sources give the signature of \<^verbatim>\<open>set_cache\<close> and not its
  body. \<^verbatim>\<open>set_cache(key, value, expire_minutes)\<close> stores the value with its expiry
  instant, \<open>expire_minutes\<close> after the current time.
\<close>

definition set_cache ::
    "('k, 'r) cache \<Rightarrow> 'k \<Rightarrow> 'r cache_value \<Rightarrow> nat \<Rightarrow> nat \<Rightarrow> ('k, 'r) cache" where
  "set_cache store key v expire_minutes now =
     store(key \<mapsto> \<lparr>ce_value = v, ce_expires_at = now + 60 * expire_minutes,
                     ce_created_at = now\<rparr>)"

text \<open>
  Modelled from the spec: the sources give the signature of \<^verbatim>\<open>get_cache\<close> and not its
  body. The expiry is enforced when the entry is read: an entry at or past its expiry
  instant is absent, whether or not it is still stored.
\<close>

definition get_cache :: "('k, 'r) cache \<Rightarrow> 'k \<Rightarrow> nat \<Rightarrow> 'r cache_value option" where
  "get_cache store key now =
     (case store key of
        None \<Rightarrow> None
      | Some e \<Rightarrow> if now < ce_expires_at e then Some (ce_value e) else None)"

text \<open>
  Modelled from the spec: \<^verbatim>\<open>delete_cache\<close>, given by signature only, is the
  invalidation of one key.
\<close>

definition delete_cache :: "('k, 'r) cache \<Rightarrow> 'k \<Rightarrow> ('k, 'r) cache" where
  "delete_cache store key = store(key := None)"

text \<open>
  Modelled from the spec: \<^verbatim>\<open>clear_user_cache\<close>, given by signature only, removes the
  entries whose value names the user.
\<close>

definition clear_user_cache :: "('k, 'r) cache \<Rightarrow> uuid \<Rightarrow> ('k, 'r) cache" where
  "clear_user_cache store uid =
     (\<lambda>k. case store k of
             None \<Rightarrow> None
           | Some e \<Rightarrow> if cv_user_id (ce_value e) = uid then None else Some e)"

text \<open>
  Modelled from the spec: \<^verbatim>\<open>cleanup_expired_cache\<close>, given by signature only, is the
  background sweep. Like the TTL index \<^verbatim>\<open>{"expires_at": 1}, {expireAfterSeconds: 0}\<close>
  of the cache collection, it removes the documents whose expiry instant has come.
\<close>

definition cleanup_expired_cache :: "('k, 'r) cache \<Rightarrow> nat \<Rightarrow> ('k, 'r) cache" where
  "cleanup_expired_cache store now =
     (\<lambda>k. case store k of
             None \<Rightarrow> None
           | Some e \<Rightarrow> if ce_expires_at e \<le> now then None else Some e)"

text \<open>
  A run of background sweeps, each at its instant, in the order they happened.
\<close>

definition run_sweeps :: "('k, 'r) cache \<Rightarrow> nat list \<Rightarrow> ('k, 'r) cache" where
  "run_sweeps store sweeps = foldl cleanup_expired_cache store sweeps"




text \<open>
  Modelled from the spec: \<^verbatim>\<open>invalidate_user_cache\<close> of the cache service, called in
  the sources and not defined there, clears the user's entries.
\<close>

definition invalidate_user_cache :: "('k, 'r) cache \<Rightarrow> uuid \<Rightarrow> ('k, 'r) cache" where
  "invalidate_user_cache store uid = clear_user_cache store uid"




subsection \<open>RateLimitStore and the rate limiting flow\<close>

text \<open>
  The counters of \<^verbatim>\<open>rate_limits\<close>: one request count for each user and window start.
\<close>

type_synonym rate_limits = "uuid \<times> nat \<rightharpoonup> nat"

record rate_config =
  RATE_LIMIT_REQUESTS :: nat
  RATE_LIMIT_WINDOW :: nat

definition default_rate_config :: rate_config where
  "default_rate_config = \<lparr>RATE_LIMIT_REQUESTS = 100, RATE_LIMIT_WINDOW = 3600\<rparr>"

text \<open>
  Modelled from the spec: the computation of the current window is not in the sources.
  The window of an instant is \<open>floor (now / windowSize)\<close>, kept as the instant the
  window starts at, as the documents of \<^verbatim>\<open>rate_limits\<close> show it.
\<close>

definition current_window :: "rate_config \<Rightarrow> nat \<Rightarrow> nat" where
  "current_window cfg now = (now div RATE_LIMIT_WINDOW cfg) * RATE_LIMIT_WINDOW cfg"

text \<open>
  Modelled from the spec: \<^verbatim>\<open>get_request_count\<close>, given by signature only, reads the
  counter of a user and window; a missing counter counts as zero.
\<close>

definition get_request_count :: "rate_limits \<Rightarrow> uuid \<Rightarrow> nat \<Rightarrow> nat" where
  "get_request_count store uid window_start =
     (case store (uid, window_start) of None \<Rightarrow> 0 | Some n \<Rightarrow> n)"

text \<open>
  Modelled from the spec: \<^verbatim>\<open>increment_request_count\<close>, given by signature only,
  adds one to the counter and returns the new count.
\<close>

definition increment_request_count :: "rate_limits \<Rightarrow> uuid \<Rightarrow> nat \<Rightarrow> nat \<times> rate_limits" where
  "increment_request_count store uid window_start =
     (let n = get_request_count store uid window_start + 1
      in (n, store((uid, window_start) \<mapsto> n)))"

text \<open>
  Modelled from the spec: \<^verbatim>\<open>cleanup_old_windows\<close>, given by signature only, purges
  the counters of the windows before the current one.
\<close>

definition cleanup_old_windows :: "rate_limits \<Rightarrow> nat \<Rightarrow> rate_limits" where
  "cleanup_old_windows store current =
     (\<lambda>(uid, w). if w < current then None else store (uid, w))"

text \<open>
  Modelled from the spec: \<^verbatim>\<open>check_rate_limit\<close> is called by the rate limiting flow
  and not defined in the sources. A request is within the limit when the count after it
  would not exceed the configured limit.
\<close>

definition check_rate_limit :: "rate_config \<Rightarrow> rate_limits \<Rightarrow> uuid \<Rightarrow> nat \<Rightarrow> bool" where
  "check_rate_limit cfg store uid now =
     (get_request_count store uid (current_window cfg now) + 1 \<le> RATE_LIMIT_REQUESTS cfg)"

text \<open>
  The rate limiting flow of the sources: the limit is checked first and a request over
  the limit is answered with 429 at once; only an admitted request increments the
  counter. The result of an admitted request is the value of the header
  \<^verbatim>\<open>X-RateLimit-Remaining\<close>.
\<close>

definition rate_limiting_flow ::
    "rate_config \<Rightarrow> rate_limits \<Rightarrow> uuid \<Rightarrow> nat \<Rightarrow> (error + int) \<times> rate_limits" where
  "rate_limiting_flow cfg store uid now =
     (let is_allowed = check_rate_limit cfg store uid now
      in if \<not> is_allowed then (Inl (HTTPException 429 ''Rate limit exceeded''), store)
         else
           (case increment_request_count store uid (current_window cfg now) of
              (current_count, store') \<Rightarrow>
                (Inr (int (RATE_LIMIT_REQUESTS cfg) - int current_count), store')))"

fun run_requests ::
    "rate_config \<Rightarrow> rate_limits \<Rightarrow> uuid \<Rightarrow> nat list \<Rightarrow> (error + int) list \<times> rate_limits" where
  "run_requests cfg store uid [] = ([], store)"
| "run_requests cfg store uid (now # ts) =
     (case rate_limiting_flow cfg store uid now of
        (r, store') \<Rightarrow>
          (case run_requests cfg store' uid ts of
             (rs, store'') \<Rightarrow> (r # rs, store'')))"

definition allowed :: "error + int \<Rightarrow> bool" where
  "allowed r = (case r of Inl e \<Rightarrow> False | Inr remaining \<Rightarrow> True)"

text \<open>
  The admission as the specification words it, for comparison: the counter is
  incremented first, and the request is denied when the count after the increment
  exceeds the limit; the increment stays.
\<close>

definition admit_as_specified ::
    "rate_config \<Rightarrow> rate_limits \<Rightarrow> uuid \<Rightarrow> nat \<Rightarrow> bool \<times> rate_limits" where
  "admit_as_specified cfg store uid now =
     (case increment_request_count store uid (current_window cfg now) of
        (n, store') \<Rightarrow> (\<not> RATE_LIMIT_REQUESTS cfg < n, store'))"

subsection \<open>SessionStore\<close>

text \<open>
  A document of \<^verbatim>\<open>sessions\<close>. The collection has a unique index on
  \<^verbatim>\<open>session_id\<close>, which holds the hash of the session identifier, so it is a map from
  the hash to the document.
\<close>

record session =
  session_user_id :: uuid
  session_expires_at :: nat
  session_last_activity :: nat

type_synonym sessions = "string \<rightharpoonup> session"

definition SESSION_EXPIRE_MINUTES :: nat where
  "SESSION_EXPIRE_MINUTES = 60"

text \<open>
  Modelled from the spec: \<^verbatim>\<open>create_session\<close>, given by signature only, stores the
  session under the one-way hash \<open>sha\<close> of its identifier, with the expiry instant
  \<^verbatim>\<open>SESSION_EXPIRE_MINUTES\<close> after the current time.
\<close>

definition create_session ::
    "(string \<Rightarrow> string) \<Rightarrow> sessions \<Rightarrow> string \<Rightarrow> uuid \<Rightarrow> nat \<Rightarrow> sessions" where
  "create_session sha store sid uid now =
     store(sha sid \<mapsto> \<lparr>session_user_id = uid,
                        session_expires_at = now + 60 * SESSION_EXPIRE_MINUTES,
                        session_last_activity = now\<rparr>)"

text \<open>
  Modelled from the spec: \<^verbatim>\<open>get_session\<close>, given by signature only, is the lookup
  by the hash of the identifier.
\<close>

definition get_session :: "(string \<Rightarrow> string) \<Rightarrow> sessions \<Rightarrow> string \<Rightarrow> session option" where
  "get_session sha store sid = store (sha sid)"

text \<open>
  Modelled from the spec: \<^verbatim>\<open>validate_session\<close>, given by signature only, answers
  with the principal of a stored, unexpired session and with \<open>None\<close> (invalid) for an
  unknown identifier and for a session whose expiry instant has come.
\<close>

definition validate_session ::
    "(string \<Rightarrow> string) \<Rightarrow> sessions \<Rightarrow> string \<Rightarrow> nat \<Rightarrow> uuid option" where
  "validate_session sha store sid now =
     (case get_session sha store sid of
        None \<Rightarrow> None
      | Some s \<Rightarrow> if now < session_expires_at s then Some (session_user_id s) else None)"

text \<open>
  Modelled from the spec: \<^verbatim>\<open>delete_session\<close>, given by signature only, revokes the
  session.
\<close>

definition delete_session :: "(string \<Rightarrow> string) \<Rightarrow> sessions \<Rightarrow> string \<Rightarrow> sessions" where
  "delete_session sha store sid = store(sha sid := None)"

text \<open>
  Modelled from the spec: \<^verbatim>\<open>cleanup_expired_sessions\<close>, given by signature only,
  removes the sessions whose expiry instant has come, as the TTL index on
  \<^verbatim>\<open>expires_at\<close> does.
\<close>

definition cleanup_expired_sessions :: "sessions \<Rightarrow> nat \<Rightarrow> sessions" where
  "cleanup_expired_sessions store now =
     (\<lambda>k. case store k of
             None \<Rightarrow> None
           | Some s \<Rightarrow> if session_expires_at s \<le> now then None else Some s)"

section \<open>Backend: authorization\<close>

text \<open>
  Modelled from the spec: \<^verbatim>\<open>authorize(principal, connectionId)\<close> is the ownership check
  \<^verbatim>\<open>user_has_access\<close>, failing closed: a missing record is a denial.
\<close>

definition authorize :: "registry \<Rightarrow> uuid \<Rightarrow> uuid \<Rightarrow> bool" where
  "authorize reg uid connection_id =
     (case user_has_access reg uid connection_id of Inl e \<Rightarrow> False | Inr b \<Rightarrow> b)"

text \<open>Example data for evaluating the services on concrete inputs.\<close>

definition example_connection :: database_connection where
  "example_connection =
     \<lparr>conn_id = ''c2'', user_id = ''P2'', conn_name = ''Manufacturing Database'',
      database_type = ''mysql'', host = Some ''192.168.1.101'', port = Some 3306,
      database_name = Some ''manufacturing_db'', username = Some ''manufacturing_user'',
      password_encrypted = Some ''encrypted_password_here'',
      connection_string_encrypted = None,
      schema_json = Some [(''suppliers'', [(''id'', ''int'')])],
      is_active = True, last_connected_at = None, created_at = 0, updated_at = 0\<rparr>"


definition example_drivers :: "nat drivers" where
  "example_drivers =
     \<lparr>create_postgresql_connection = (\<lambda>c. Inr 1),
      create_mysql_connection = (\<lambda>c. Inr 2),
      create_sqlite_connection = (\<lambda>c. Inr 3)\<rparr>"

section \<open>Theorems: frontend\<close>

subsection \<open>Authentication state\<close>

lemma isAuthenticated_iff:
  "isAuthenticated g \<longleftrightarrow> (\<exists>t. getItem g ''auth_token'' = Some t \<and> t \<noteq> [])"
  by (auto simp: isAuthenticated_def getToken_def getItem_def truthy_token_def
           split: option.splits)

lemma logout_getItem:
  "getItem (logout g) key
     = (if key = ''auth_token'' \<or> key = ''user'' then None else getItem g key)"
  by (cases g) (simp_all add: logout_def removeToken_def removeUser_def getItem_def Let_def)

text \<open>
  C10, as stated: \<^verbatim>\<open>isAuthenticated()\<close> is true exactly when a non-null
  \<^verbatim>\<open>auth_token\<close> entry is present in local storage. It fails for a stored empty
  string, which is a non-null entry and is falsy under \<^verbatim>\<open>!!token\<close>.
\<close>

theorem C10_empty_token_counterexample:
  "\<not> (isAuthenticated
         (Some \<lparr>localStorage = [''auth_token'' \<mapsto> ''''], location_href = ''/''\<rparr>)
       \<longleftrightarrow>
       getItem (Some \<lparr>localStorage = [''auth_token'' \<mapsto> ''''], location_href = ''/''\<rparr>)
         ''auth_token'' \<noteq> None)"
  by (simp add: isAuthenticated_def getToken_def getItem_def truthy_token_def)

text \<open>
  C10, amended: \<^verbatim>\<open>isAuthenticated()\<close> is true exactly when a non-empty
  \<^verbatim>\<open>auth_token\<close> entry is present in local storage; after \<^verbatim>\<open>logout()\<close>, which
  removes both the stored token and the stored user, it is false.
\<close>

theorem C10_isAuthenticated_nonempty_token:
  "(isAuthenticated g \<longleftrightarrow> (\<exists>t. getItem g ''auth_token'' = Some t \<and> t \<noteq> []))
   \<and> \<not> isAuthenticated (logout g)
   \<and> getItem (logout g) ''auth_token'' = None
   \<and> getItem (logout g) ''user'' = None"
  by (simp add: isAuthenticated_iff logout_getItem)

theorem C10_isAuthenticated_witness:
  "isAuthenticated
     (Some \<lparr>localStorage = [''auth_token'' \<mapsto> ''abc'', ''user'' \<mapsto> ''{}''],
            location_href = ''/dashboard''\<rparr>)
   \<and> \<not> isAuthenticated (logout
     (Some \<lparr>localStorage = [''auth_token'' \<mapsto> ''abc'', ''user'' \<mapsto> ''{}''],
            location_href = ''/dashboard''\<rparr>))
   \<and> getItem (logout
     (Some \<lparr>localStorage = [''auth_token'' \<mapsto> ''abc'', ''user'' \<mapsto> ''{}''],
            location_href = ''/dashboard''\<rparr>)) ''user'' = None"
  using C10_isAuthenticated_nonempty_token
    [of "Some \<lparr>localStorage = [''auth_token'' \<mapsto> ''abc'', ''user'' \<mapsto> ''{}''],
                 location_href = ''/dashboard''\<rparr>"]
  by (simp add: getItem_def)

subsection \<open>Error propagation of the API client\<close>

text \<open>
  C9, as stated: the call throws exactly when the response status is not ok. It fails
  for a successful response whose body is not JSON (a 204 with an empty body):
  the status is ok and the call throws the rejection of \<^verbatim>\<open>response.json()\<close>.
\<close>

theorem C9_ok_without_json_counterexample:
  "ok \<lparr>status = 204, body = (None :: int json option)\<rparr>
   \<and> request int_ops (Inr \<lparr>status = 204, body = None\<rparr>) = Inl JsonRejected"
  by (simp add: request_def ok_def)

text \<open>
  C9, amended: \<^verbatim>\<open>ApiClient.request\<close> throws whenever the response status is not ok.
  The error is an \<^verbatim>\<open>Error\<close> whose message is the body's \<^verbatim>\<open>detail\<close> member when that
  member is a non-empty string, and more generally the string form of a truthy
  \<^verbatim>\<open>detail\<close> that converts to a string; the message is
  \<^verbatim>\<open>HTTP error! status: <code>\<close> when the body does not parse or its \<^verbatim>\<open>detail\<close> is
  absent or falsy. When the status is ok and the body parses, the call returns the
  parsed JSON body; when the body of an ok response does not parse the call throws, and
  a rejection of \<^verbatim>\<open>fetch\<close> is rethrown.
\<close>

theorem C9_request_error_propagation:
  "request ops (Inl e) = Inl e
   \<and> (\<not> ok r \<longrightarrow> (\<exists>e'. request ops (Inr r) = Inl e'))
   \<and> (\<not> ok r \<and> body r = Some (JObj kvs) \<and> map_of (rev kvs) ''detail'' = Some (JStr s)
        \<and> s \<noteq> []
      \<longrightarrow> request ops (Inr r) = Inl (Error s))
   \<and> (\<not> ok r \<and> body r = Some (JObj kvs) \<and> map_of (rev kvs) ''detail'' = Some v
        \<and> truthy ops (Some v) \<and> to_string ops v = Inr m
      \<longrightarrow> request ops (Inr r) = Inl (Error m))
   \<and> (\<not> ok r \<and> get_detail (errorData r) = Inr d \<and> \<not> truthy ops d
      \<longrightarrow> request ops (Inr r)
            = Inl (Error (''HTTP error! status: '' @ show_nat (unat (status r)))))
   \<and> (ok r \<and> body r = Some j \<longrightarrow> request ops (Inr r) = Inr j)
   \<and> (ok r \<and> body r = None \<longrightarrow> request ops (Inr r) = Inl JsonRejected)"
  by (auto simp: request_def errorData_def get_detail_def detail_or_def truthy_def
           split: sum.splits option.splits json.splits)

theorem C9_request_witness:
  "request int_ops
     (Inr \<lparr>status = 404, body = Some (JObj [(''detail'', JStr ''Connection not found'')])\<rparr>)
     = Inl (Error ''Connection not found'')
   \<and> request int_ops (Inr \<lparr>status = 404, body = None\<rparr>)
     = Inl (Error ''HTTP error! status: 404'')
   \<and> request int_ops (Inr \<lparr>status = 422, body = Some (JObj [(''detail'', JArr [JObj []])])\<rparr>)
     = Inl (Error ''[object Object]'')
   \<and> request int_ops (Inr \<lparr>status = 200, body = Some (JArr [JNum 1])\<rparr>) = Inr (JArr [JNum 1])"
proof -
  let ?r1 = "\<lparr>status = 404,
              body = Some (JObj [(''detail'', JStr ''Connection not found'' :: int json)])\<rparr>"
  let ?r2 = "\<lparr>status = 404, body = (None :: int json option)\<rparr>"
  let ?r3 = "\<lparr>status = 200, body = Some (JArr [JNum (1 :: int)])\<rparr>"
  let ?r4 = "\<lparr>status = 422, body = Some (JObj [(''detail'', JArr [JObj []] :: int json)])\<rparr>"
  have n404: "show_nat 404 = ''404''"
    by (simp add: show_nat.simps digit_char_def)
  have a: "request int_ops (Inr ?r1) = Inl (Error ''Connection not found'')"
    using C9_request_error_propagation
      [of int_ops _ ?r1 "[(''detail'', JStr ''Connection not found'')]" "''Connection not found''"]
    by (simp add: ok_def)
  have b: "request int_ops (Inr ?r2) = Inl (Error ''HTTP error! status: 404'')"
    using C9_request_error_propagation [of int_ops _ ?r2 _ _ _ _ None] n404
    by (simp add: ok_def truthy_def errorData_def get_detail_def)
  have c: "request int_ops (Inr ?r3) = Inr (JArr [JNum 1])"
    using C9_request_error_propagation [where ops = int_ops and r = ?r3 and j = "JArr [JNum 1]"]
    by (simp add: ok_def)
  have d: "request int_ops (Inr ?r4) = Inl (Error ''[object Object]'')"
    using C9_request_error_propagation
      [where ops = int_ops and r = ?r4 and kvs = "[(''detail'', JArr [JObj []])]"
         and v = "JArr [JObj []]" and m = "''[object Object]''"]
    by (simp add: ok_def truthy_def)
  from a b c d show ?thesis by simp
qed

section \<open>Theorems: backend\<close>

subsection \<open>The encryption service\<close>

lemma toy_char_byte: "char_of (unat (of_nat (of_char c) :: byte)) = c"
  by (simp add: unat_of_nat)

lemma toy_byte_char: "(of_nat (of_char (char_of (unat b))) :: byte) = b"
proof -
  have "unat b < 256"
    using unsigned_less [of b, where ?'a = nat] by simp
  then show ?thesis by simp
qed

lemma toy_lib_contract: "lib_contract toy_lib"
  unfolding lib_contract_def toy_lib_def
  by (auto simp: toy_char_byte toy_byte_char gcm_tag_length_def comp_def
           simp del: of_char_of intro!: map_idI)

lemma encrypt_blob:
  "encrypt_database_password lib key nonce pw = Inr blob \<Longrightarrow>
     valid_key key \<and>
     blob = b64encode lib (nonce @ snd (encrypt_and_digest lib key nonce (encode lib pw))
                                 @ fst (encrypt_and_digest lib key nonce (encode lib pw)))"
  by (auto simp: encrypt_database_password_def split: if_splits prod.splits)

text \<open>
  Had the cipher drawn a nonce of 12 bytes, the three slices of
  \<^verbatim>\<open>decrypt_database_password\<close> would be the nonce, the tag and the ciphertext, and
  decryption would give the password back.
\<close>

lemma roundtrip_nonce12:
  assumes "lib_contract lib" and "length nonce = 12"
    and "encrypt_database_password lib key nonce pw = Inr blob"
  shows "decrypt_database_password lib key blob = Inr pw"
proof -
  let ?ct = "fst (encrypt_and_digest lib key nonce (encode lib pw))"
  let ?tag = "snd (encrypt_and_digest lib key nonce (encode lib pw))"
  from assms(3) have k: "valid_key key" and b: "blob = b64encode lib (nonce @ ?tag @ ?ct)"
    using encrypt_blob by blast+
  from assms(1) have d: "b64decode lib blob = Some (nonce @ ?tag @ ?ct)"
    and t: "length ?tag = 16"
    and v: "decrypt_and_verify lib key nonce ?ct ?tag = Some (encode lib pw)"
    and u: "decode lib (encode lib pw) = Some pw"
    unfolding lib_contract_def b gcm_tag_length_def by blast+
  from assms(2) have n: "nonce \<noteq> []" by auto
  show ?thesis
    using d t v u k n assms(2)
    by (simp add: decrypt_database_password_def Let_def)
qed

text \<open>
  C2 (\<^verbatim>\<open>unseal(seal(x))\<close> returns \<open>x\<close>; a corrupted blob fails): the service
  does not give the password back. \<^verbatim>\<open>encrypt_database_password\<close> lets the library
  draw the nonce, which is 16 bytes long, and writes nonce, tag and ciphertext into the
  blob; \<^verbatim>\<open>decrypt_database_password\<close> takes the first 12 bytes for the nonce and
  the next 16 for the tag. The ciphertext it hands to the cipher is therefore four bytes
  longer than the encoded password, and whatever the cipher answers is not the password.
\<close>

theorem C2_roundtrip_fails_with_default_nonce:
  assumes "lib_contract lib" and "length nonce = gcm_default_nonce_length"
    and "encrypt_database_password lib key nonce pw = Inr blob"
  shows "decrypt_database_password lib key blob \<noteq> Inr pw"
proof
  assume r: "decrypt_database_password lib key blob = Inr pw"
  let ?ct = "fst (encrypt_and_digest lib key nonce (encode lib pw))"
  let ?tag = "snd (encrypt_and_digest lib key nonce (encode lib pw))"
  from assms(3) have k: "valid_key key" and b: "blob = b64encode lib (nonce @ ?tag @ ?ct)"
    using encrypt_blob by blast+
  from assms(1) have d: "b64decode lib blob = Some (nonce @ ?tag @ ?ct)"
    and t: "length ?tag = 16"
    and c: "length ?ct = length (encode lib pw)"
    and lp: "\<And>n c t p. decrypt_and_verify lib key n c t = Some p \<Longrightarrow> length p = length c"
    and inj: "\<And>p s. decode lib p = Some s \<Longrightarrow> encode lib s = p"
    unfolding lib_contract_def b gcm_tag_length_def by blast+
  from assms(2) have n: "length nonce = 16" by (simp add: gcm_default_nonce_length_def)
  have dr: "drop 28 (nonce @ ?tag @ ?ct) = drop 12 ?tag @ ?ct"
    using n t by simp
  from r d obtain p where
    p1: "decrypt_and_verify lib key (take 12 (nonce @ ?tag @ ?ct)) (drop 28 (nonce @ ?tag @ ?ct))
           (take 16 (drop 12 (nonce @ ?tag @ ?ct))) = Some p"
    and p2: "decode lib p = Some pw"
    by (auto simp: decrypt_database_password_def Let_def split: if_splits option.splits)
  from lp [OF p1] have "length p = length (drop 12 ?tag @ ?ct)"
    unfolding dr .
  with t c have "length p = length (encode lib pw) + 4" by simp
  moreover from inj [OF p2] have "length p = length (encode lib pw)" by simp
  ultimately show False by simp
qed

theorem C2_roundtrip_fails_witness:
  "\<exists>blob. encrypt_database_password toy_lib (replicate 16 0) (replicate 16 7) ''secret'' = Inr blob
      \<and> decrypt_database_password toy_lib (replicate 16 0) blob \<noteq> Inr ''secret''"
proof -
  let ?blob = "b64encode toy_lib
      (replicate 16 7 @ snd (encrypt_and_digest toy_lib (replicate 16 0) (replicate 16 7)
                               (encode toy_lib ''secret''))
                     @ fst (encrypt_and_digest toy_lib (replicate 16 0) (replicate 16 7)
                               (encode toy_lib ''secret'')))"
  have e: "encrypt_database_password toy_lib (replicate 16 0) (replicate 16 7) ''secret''
             = Inr ?blob"
    by (simp add: encrypt_database_password_def valid_key_def split: prod.splits)
  have n: "length (replicate 16 (7 :: byte)) = gcm_default_nonce_length"
    by (simp add: gcm_default_nonce_length_def)
  from C2_roundtrip_fails_with_default_nonce [OF toy_lib_contract n e] e
  show ?thesis by blast
qed

subsection \<open>Tenant access to a connection\<close>

lemma user_has_access_owner:
  "reg connection_id = Some c \<Longrightarrow>
     user_has_access reg uid connection_id = Inr (user_id c = uid)"
  by (simp add: user_has_access_def get_connection_def)

lemma get_client_connection_denied:
  "reg connection_id = Some c \<Longrightarrow> user_id c \<noteq> uid \<Longrightarrow>
     get_client_connection drv reg uid connection_id
       = Inl (AccessDeniedError ''User cannot access this database'')"
  by (simp add: get_client_connection_def get_connection_config_def user_has_access_owner)

text \<open>
  C6: when the record of a connection exists and belongs to another principal,
  \<^verbatim>\<open>get_client_connection\<close> fails with \<^verbatim>\<open>AccessDeniedError\<close>, and so not with the
  error of a missing record.
\<close>

theorem C6_non_owner_gets_access_denied:
  assumes "reg connection_id = Some c" and "user_id c \<noteq> uid"
  shows "get_client_connection drv reg uid connection_id
           = Inl (AccessDeniedError ''User cannot access this database'')
         \<and> get_client_connection drv reg uid connection_id \<noteq> Inl ConnectionNotFound"
  using get_client_connection_denied [of reg connection_id c uid drv] assms by simp

theorem C6_non_owner_witness:
  "get_client_connection example_drivers [''c2'' \<mapsto> example_connection] ''P1'' ''c2''
     = Inl (AccessDeniedError ''User cannot access this database'')
   \<and> get_client_connection example_drivers [''c2'' \<mapsto> example_connection] ''P1'' ''c2''
     \<noteq> Inl ConnectionNotFound"
  using C6_non_owner_gets_access_denied
    [of "[''c2'' \<mapsto> example_connection]" "''c2''" example_connection "''P1''" example_drivers]
  by (simp add: example_connection_def)

subsection \<open>Schema detection\<close>

text \<open>
  C7, as stated: when the introspection fails and a snapshot was persisted before,
  \<^verbatim>\<open>discover\<close> returns that snapshot. \<^verbatim>\<open>detect_client_schema\<close> has no fallback:
  the connection below holds a snapshot, the introspection fails, and the call fails.
\<close>

theorem C7_no_fallback_counterexample:
  "schema_json example_connection = Some [(''suppliers'', [(''id'', ''int'')])]
   \<and> fst (detect_client_schema (\<lambda>c. Inl (IntrospectionError ''connection refused''))
             [''c2'' \<mapsto> example_connection] ''c2'')
       = Inl (IntrospectionError ''connection refused'')"
  by (simp add: detect_client_schema_def get_connection_def example_connection_def)

text \<open>
  C7, amended: when the introspection fails, \<^verbatim>\<open>detect_client_schema\<close> fails with the
  error of the introspection, whether or not a snapshot was persisted before, and leaves
  the registry as it was; when the introspection succeeds, it returns the schema found
  and persists it as the snapshot of the connection.
\<close>

theorem C7_detect_schema_propagates_failure:
  "(reg connection_id = Some c \<and> analyze c = Inl e
      \<longrightarrow> detect_client_schema analyze reg connection_id = (Inl e, reg))
   \<and> (reg connection_id = Some c \<and> analyze c = Inr s
      \<longrightarrow> detect_client_schema analyze reg connection_id
            = (Inr s, reg(connection_id \<mapsto> c\<lparr>schema_json := Some s\<rparr>)))"
  by (simp add: detect_client_schema_def get_connection_def cache_schema_def)

theorem C7_detect_schema_witness:
  "detect_client_schema (\<lambda>c. Inl (IntrospectionError ''connection refused''))
     [''c2'' \<mapsto> example_connection] ''c2''
   = (Inl (IntrospectionError ''connection refused''), [''c2'' \<mapsto> example_connection])
   \<and> detect_client_schema (\<lambda>c. Inr [(''parts'', [])]) [''c2'' \<mapsto> example_connection] ''c2''
   = (Inr [(''parts'', [])],
      [''c2'' \<mapsto> example_connection\<lparr>schema_json := Some [(''parts'', [])]\<rparr>])"
  using C7_detect_schema_propagates_failure
      [of "[''c2'' \<mapsto> example_connection]" "''c2''" example_connection
          "\<lambda>c. Inl (IntrospectionError ''connection refused'')"
          "IntrospectionError ''connection refused''"]
    C7_detect_schema_propagates_failure
      [of "[''c2'' \<mapsto> example_connection]" "''c2''" example_connection
          "\<lambda>c. Inr [(''parts'', [])]" _ "[(''parts'', [])]"]
  by simp

subsection \<open>Stored credentials\<close>















subsection \<open>The cache store\<close>

lemma cleanup_none: "store k = None \<Longrightarrow> cleanup_expired_cache store s k = None"
  by (simp add: cleanup_expired_cache_def)

lemma run_sweeps_none: "store k = None \<Longrightarrow> run_sweeps store sweeps k = None"
  unfolding run_sweeps_def
  by (induction sweeps arbitrary: store) (simp_all add: cleanup_none)

lemma run_sweeps_cases:
  "run_sweeps store sweeps k = None \<or> run_sweeps store sweeps k = store k"
proof (induction sweeps arbitrary: store)
  case Nil
  then show ?case by (simp add: run_sweeps_def)
next
  case (Cons s sweeps)
  have "cleanup_expired_cache store s k = None \<or> cleanup_expired_cache store s k = store k"
    by (auto simp: cleanup_expired_cache_def split: option.splits)
  with Cons [of "cleanup_expired_cache store s"]
       run_sweeps_none [of "cleanup_expired_cache store s" k sweeps]
  show ?case by (auto simp: run_sweeps_def)
qed

lemma run_sweeps_keeps:
  assumes "store k = Some e" and "\<forall>s \<in> set sweeps. s \<le> t" and "t < ce_expires_at e"
  shows "run_sweeps store sweeps k = Some e"
  using assms unfolding run_sweeps_def
proof (induction sweeps arbitrary: store)
  case Nil
  then show ?case by simp
next
  case (Cons s sweeps)
  have "cleanup_expired_cache store s k = Some e"
    using Cons.prems by (auto simp: cleanup_expired_cache_def)
  with Cons show ?case by simp
qed

text \<open>
  C4: after \<^verbatim>\<open>set_cache(k, v, ttl)\<close> at \<open>t0\<close>, a \<^verbatim>\<open>get_cache(k)\<close> at \<open>t\<close> returns
  \<open>v\<close> when \<open>t\<close> is strictly before the expiry instant and absent when \<open>t\<close> is at or
  after it, whatever background sweeps have run up to \<open>t\<close> and whether or not they
  have removed the entry.
\<close>

theorem C4_get_after_set:
  assumes "\<forall>s \<in> set sweeps. s \<le> t"
  shows "get_cache (run_sweeps (set_cache store k v ttl t0) sweeps) k t
           = (if t < t0 + 60 * ttl then Some v else None)"
proof -
  let ?e = "\<lparr>ce_value = v, ce_expires_at = t0 + 60 * ttl, ce_created_at = t0\<rparr>"
  let ?s = "set_cache store k v ttl t0"
  have s: "?s k = Some ?e" by (simp add: set_cache_def)
  show ?thesis
  proof (cases "t < t0 + 60 * ttl")
    case True
    with run_sweeps_keeps [of ?s k ?e sweeps t] s assms show ?thesis
      by (simp add: get_cache_def)
  next
    case False
    with run_sweeps_cases [of ?s sweeps k] s show ?thesis
      by (auto simp: get_cache_def)
  qed
qed

theorem C4_get_after_set_witness:
  "get_cache (run_sweeps (set_cache Map.empty ''k''
       \<lparr>cv_user_id = ''P1'', cv_connection_id = ''c1'', cv_query = ''SELECT 1'',
        cv_result = ''rows'', cv_cached_at = 100\<rparr> 30 100) [500, 1000])
     ''k'' 1899
   = Some \<lparr>cv_user_id = ''P1'', cv_connection_id = ''c1'', cv_query = ''SELECT 1'',
        cv_result = ''rows'', cv_cached_at = 100\<rparr>
   \<and> get_cache (run_sweeps (set_cache Map.empty ''k''
       \<lparr>cv_user_id = ''P1'', cv_connection_id = ''c1'', cv_query = ''SELECT 1'',
        cv_result = ''rows'', cv_cached_at = 100\<rparr> 30 100) [500, 1000])
     ''k'' 1900 = None"
proof -
  let ?v = "\<lparr>cv_user_id = ''P1'', cv_connection_id = ''c1'', cv_query = ''SELECT 1'',
        cv_result = ''rows'', cv_cached_at = 100\<rparr>"
  have a: "\<forall>s \<in> set [500, 1000 :: nat]. s \<le> 1899"
    and b: "\<forall>s \<in> set [500, 1000 :: nat]. s \<le> 1900" by simp_all
  from C4_get_after_set [OF a, of Map.empty "''k''" ?v 30 100]
       C4_get_after_set [OF b, of Map.empty "''k''" ?v 30 100]
  show ?thesis by simp
qed

subsection \<open>The session store\<close>

text \<open>
  C8: \<^verbatim>\<open>validate_session\<close> returns a principal exactly for a stored session that has
  not expired, and that session's own; an unknown identifier and a session whose expiry
  instant has come are invalid, whether or not the sweep has removed the session.
\<close>

theorem C8_validate_session:
  "(validate_session sha store sid now = Some p
      \<longleftrightarrow> (\<exists>s. store (sha sid) = Some s \<and> now < session_expires_at s \<and> session_user_id s = p))
   \<and> (store (sha sid) = None \<longrightarrow> validate_session sha store sid now = None)
   \<and> (store (sha sid) = Some s \<and> session_expires_at s \<le> now
        \<longrightarrow> validate_session sha store sid now = None)
   \<and> (t \<le> now \<longrightarrow> validate_session sha (cleanup_expired_sessions store t) sid now
                     = validate_session sha store sid now)"
  by (auto simp: validate_session_def get_session_def cleanup_expired_sessions_def split: option.splits)

theorem C8_validate_session_witness:
  "validate_session (\<lambda>s. ''#'' @ s) (create_session (\<lambda>s. ''#'' @ s) Map.empty ''t1'' ''P1'' 0)
     ''t1'' 3599 = Some ''P1''
   \<and> validate_session (\<lambda>s. ''#'' @ s) (create_session (\<lambda>s. ''#'' @ s) Map.empty ''t1'' ''P1'' 0)
     ''t1'' 3600 = None
   \<and> validate_session (\<lambda>s. ''#'' @ s) (create_session (\<lambda>s. ''#'' @ s) Map.empty ''t1'' ''P1'' 0)
     ''t2'' 10 = None"
proof -
  let ?sha = "\<lambda>s. ''#'' @ s"
  let ?store = "create_session ?sha Map.empty ''t1'' ''P1'' 0"
  let ?s = "\<lparr>session_user_id = ''P1'', session_expires_at = 3600, session_last_activity = 0\<rparr>"
  have s: "?store (?sha ''t1'') = Some ?s" and n: "?store (?sha ''t2'') = None"
    by (simp_all add: create_session_def SESSION_EXPIRE_MINUTES_def)
  from C8_validate_session [of ?sha ?store "''t1''" 3599 "''P1''" ?s 0] s
  have a: "validate_session ?sha ?store ''t1'' 3599 = Some ''P1''" by simp
  from C8_validate_session [of ?sha ?store "''t1''" 3600 "''P1''" ?s 0] s
  have b: "validate_session ?sha ?store ''t1'' 3600 = None" by simp
  from C8_validate_session [of ?sha ?store "''t2''" 10 "''P1''" ?s 0] n
  have c: "validate_session ?sha ?store ''t2'' 10 = None" by simp
  from a b c show ?thesis by simp
qed

subsection \<open>The rate limiting flow\<close>

lemma flow_allowed:
  assumes "get_request_count store uid (current_window cfg t) < RATE_LIMIT_REQUESTS cfg"
  shows "allowed (fst (rate_limiting_flow cfg store uid t))"
    and "snd (rate_limiting_flow cfg store uid t)
           = store((uid, current_window cfg t) \<mapsto>
                     get_request_count store uid (current_window cfg t) + 1)"
  using assms
  by (simp_all add: rate_limiting_flow_def check_rate_limit_def increment_request_count_def
                    allowed_def Let_def)

lemma flow_denied:
  assumes "\<not> get_request_count store uid (current_window cfg t) < RATE_LIMIT_REQUESTS cfg"
  shows "\<not> allowed (fst (rate_limiting_flow cfg store uid t))"
    and "snd (rate_limiting_flow cfg store uid t) = store"
  using assms
  by (simp_all add: rate_limiting_flow_def check_rate_limit_def allowed_def Let_def)

lemma flow_denied_unchanged:
  "\<not> allowed (fst (rate_limiting_flow cfg store uid t)) \<Longrightarrow>
     snd (rate_limiting_flow cfg store uid t) = store"
  using flow_allowed(1) flow_denied(2) by blast

lemma run_requests_Cons:
  "fst (run_requests cfg store uid (t # ts))
     = fst (rate_limiting_flow cfg store uid t)
       # fst (run_requests cfg (snd (rate_limiting_flow cfg store uid t)) uid ts)"
  "snd (run_requests cfg store uid (t # ts))
     = snd (run_requests cfg (snd (rate_limiting_flow cfg store uid t)) uid ts)"
  by (simp_all split: prod.splits)

lemma run_requests_window:
  assumes "\<forall>t \<in> set ts. current_window cfg t = w"
    and "get_request_count store uid w = c"
  shows "map allowed (fst (run_requests cfg store uid ts))
           = replicate (min (length ts) (RATE_LIMIT_REQUESTS cfg - c)) True
             @ replicate (length ts - (RATE_LIMIT_REQUESTS cfg - c)) False
         \<and> get_request_count (snd (run_requests cfg store uid ts)) uid w
           = (if RATE_LIMIT_REQUESTS cfg \<le> c then c
              else min (c + length ts) (RATE_LIMIT_REQUESTS cfg))
         \<and> (\<forall>w'. w' \<noteq> w \<longrightarrow>
               snd (run_requests cfg store uid ts) (uid, w') = store (uid, w'))"
  using assms
proof (induction ts arbitrary: store c)
  case Nil
  then show ?case by simp
next
  case (Cons t ts)
  let ?N = "RATE_LIMIT_REQUESTS cfg"
  let ?s = "snd (rate_limiting_flow cfg store uid t)"
  from Cons.prems have w: "current_window cfg t = w"
    and ws: "\<forall>t \<in> set ts. current_window cfg t = w" by simp_all
  let ?r = "run_requests cfg ?s uid ts"
  show ?case
  proof (cases "c < ?N")
    case True
    with Cons.prems w have al: "allowed (fst (rate_limiting_flow cfg store uid t))"
      and st: "?s = store((uid, w) \<mapsto> c + 1)"
      using flow_allowed [of store uid cfg t] by simp_all
    have c': "get_request_count ?s uid w = c + 1"
      by (simp add: st get_request_count_def)
    from True have m: "min (Suc (length ts)) (?N - c) = Suc (min (length ts) (?N - (c + 1)))"
      and d: "Suc (length ts) - (?N - c) = length ts - (?N - (c + 1))"
      by auto
    from Cons.IH [OF ws c']
    have ih1: "map allowed (fst ?r) = replicate (min (length ts) (?N - (c + 1))) True
                 @ replicate (length ts - (?N - (c + 1))) False"
      and ih2: "get_request_count (snd ?r) uid w
                 = (if ?N \<le> c + 1 then c + 1 else min (c + 1 + length ts) ?N)"
      and ih3: "\<forall>w'. w' \<noteq> w \<longrightarrow> snd ?r (uid, w') = ?s (uid, w')"
      by blast+
    have g1: "map allowed (fst (run_requests cfg store uid (t # ts)))
                = replicate (min (length (t # ts)) (?N - c)) True
                  @ replicate (length (t # ts) - (?N - c)) False"
      unfolding run_requests_Cons list.map length_Cons m d ih1 using al by simp
    have g2: "get_request_count (snd (run_requests cfg store uid (t # ts))) uid w
                = (if ?N \<le> c then c else min (c + length (t # ts)) ?N)"
      unfolding run_requests_Cons ih2 using True by auto
    have g3: "\<forall>w'. w' \<noteq> w \<longrightarrow>
                snd (run_requests cfg store uid (t # ts)) (uid, w') = store (uid, w')"
      unfolding run_requests_Cons using ih3 by (simp add: st)
    from g1 g2 g3 show ?thesis by blast
  next
    case False
    with Cons.prems w have al: "\<not> allowed (fst (rate_limiting_flow cfg store uid t))"
      and st: "?s = store"
      using flow_denied [of store uid cfg t] by simp_all
    from Cons.prems have c': "get_request_count ?s uid w = c" by (simp add: st)
    from False have z: "?N - c = 0" by simp
    from Cons.IH [OF ws c']
    have ih1: "map allowed (fst ?r) = replicate (min (length ts) (?N - c)) True
                 @ replicate (length ts - (?N - c)) False"
      and ih2: "get_request_count (snd ?r) uid w
                 = (if ?N \<le> c then c else min (c + length ts) ?N)"
      and ih3: "\<forall>w'. w' \<noteq> w \<longrightarrow> snd ?r (uid, w') = ?s (uid, w')"
      by blast+
    have g1: "map allowed (fst (run_requests cfg store uid (t # ts)))
                = replicate (min (length (t # ts)) (?N - c)) True
                  @ replicate (length (t # ts) - (?N - c)) False"
      unfolding run_requests_Cons list.map ih1 using al by (simp add: z)
    have g2: "get_request_count (snd (run_requests cfg store uid (t # ts))) uid w
                = (if ?N \<le> c then c else min (c + length (t # ts)) ?N)"
      unfolding run_requests_Cons ih2 using False by auto
    have g3: "\<forall>w'. w' \<noteq> w \<longrightarrow>
                snd (run_requests cfg store uid (t # ts)) (uid, w') = store (uid, w')"
      unfolding run_requests_Cons using ih3 by (simp add: st)
    from g1 g2 g3 show ?thesis by blast
  qed
qed

text \<open>
  C3, amended: within one window, starting from a count of zero, the first \<open>N\<close> requests
  of a principal are admitted and every later one is denied with 429; a denied request
  leaves the counters as they are, so the count stays at \<open>N\<close>; and for \<open>N > 0\<close> the
  first request in another window that has no count yet is admitted.
\<close>

theorem C3_fixed_window_admission:
  assumes "\<forall>t \<in> set ts. current_window cfg t = w"
    and "get_request_count store uid w = 0"
  shows "map allowed (fst (run_requests cfg store uid ts))
           = replicate (min (length ts) (RATE_LIMIT_REQUESTS cfg)) True
             @ replicate (length ts - RATE_LIMIT_REQUESTS cfg) False
         \<and> get_request_count (snd (run_requests cfg store uid ts)) uid w
           = min (length ts) (RATE_LIMIT_REQUESTS cfg)
         \<and> (\<not> allowed (fst (rate_limiting_flow cfg s uid t))
              \<longrightarrow> snd (rate_limiting_flow cfg s uid t) = s)
         \<and> (0 < RATE_LIMIT_REQUESTS cfg \<and> current_window cfg t' \<noteq> w
              \<and> get_request_count store uid (current_window cfg t') = 0
              \<longrightarrow> allowed (fst (rate_limiting_flow cfg (snd (run_requests cfg store uid ts))
                                   uid t')))"
proof -
  note r = run_requests_window [OF assms]
  have n: "allowed (fst (rate_limiting_flow cfg (snd (run_requests cfg store uid ts)) uid t'))"
    if "0 < RATE_LIMIT_REQUESTS cfg" "current_window cfg t' \<noteq> w"
       "get_request_count store uid (current_window cfg t') = 0"
  proof -
    from r that(2)
    have "snd (run_requests cfg store uid ts) (uid, current_window cfg t')
            = store (uid, current_window cfg t')" by blast
    then have "get_request_count (snd (run_requests cfg store uid ts)) uid (current_window cfg t') = 0"
      using that(3) by (simp add: get_request_count_def)
    with that(1) show ?thesis by (simp add: flow_allowed(1))
  qed
  from r n flow_denied_unchanged [of cfg s uid t] show ?thesis by auto
qed

text \<open>
  The admission as the specification words it takes the same decision as the flow of the
  sources in every state, and differs in what it leaves behind: it counts every call.
\<close>

lemma admit_as_specified_decision:
  "fst (admit_as_specified cfg store uid t) = allowed (fst (rate_limiting_flow cfg store uid t))"
  by (auto simp: admit_as_specified_def rate_limiting_flow_def check_rate_limit_def
                 increment_request_count_def allowed_def Let_def)

lemma admit_as_specified_consumes:
  "get_request_count (snd (admit_as_specified cfg store uid t)) uid (current_window cfg t)
     = get_request_count store uid (current_window cfg t) + 1"
  by (simp add: admit_as_specified_def increment_request_count_def get_request_count_def Let_def)

text \<open>
  C3, as stated: the counter is still incremented on the denied call. With a limit of
  one, the second request of the window is denied and the count is one afterwards,
  not two: the flow returns the 429 before it reaches the increment.
\<close>

theorem C3_denied_call_not_counted_counterexample:
  "map allowed (fst (run_requests \<lparr>RATE_LIMIT_REQUESTS = 1, RATE_LIMIT_WINDOW = 3600\<rparr>
                       Map.empty ''P1'' [10, 20])) = [True, False]
   \<and> get_request_count (snd (run_requests \<lparr>RATE_LIMIT_REQUESTS = 1, RATE_LIMIT_WINDOW = 3600\<rparr>
                       Map.empty ''P1'' [10, 20])) ''P1'' 0 = 1"
  by (simp add: rate_limiting_flow_def check_rate_limit_def increment_request_count_def
                get_request_count_def current_window_def allowed_def Let_def)

theorem C3_fixed_window_witness:
  "map allowed (fst (run_requests \<lparr>RATE_LIMIT_REQUESTS = 2, RATE_LIMIT_WINDOW = 3600\<rparr>
                       Map.empty ''P1'' [10, 20, 30])) = [True, True, False]
   \<and> get_request_count (snd (run_requests \<lparr>RATE_LIMIT_REQUESTS = 2, RATE_LIMIT_WINDOW = 3600\<rparr>
                       Map.empty ''P1'' [10, 20, 30])) ''P1'' 0 = 2
   \<and> allowed (fst (rate_limiting_flow \<lparr>RATE_LIMIT_REQUESTS = 2, RATE_LIMIT_WINDOW = 3600\<rparr>
        (snd (run_requests \<lparr>RATE_LIMIT_REQUESTS = 2, RATE_LIMIT_WINDOW = 3600\<rparr>
                       Map.empty ''P1'' [10, 20, 30])) ''P1'' 3600))"
proof -
  let ?cfg = "\<lparr>RATE_LIMIT_REQUESTS = 2, RATE_LIMIT_WINDOW = 3600\<rparr>"
  have w: "\<forall>t \<in> set [10, 20, 30]. current_window ?cfg t = 0"
    by (simp add: current_window_def)
  have z: "get_request_count Map.empty ''P1'' 0 = 0"
    by (simp add: get_request_count_def)
  have r: "replicate (min (length [10, 20, 30 :: nat]) 2) True
             @ replicate (length [10, 20, 30 :: nat] - 2) False = [True, True, False]"
    by (simp add: numeral_2_eq_2)
  from C3_fixed_window_admission [OF w z, where t' = 3600] r show ?thesis
    by (simp add: current_window_def get_request_count_def)
qed

subsection \<open>Tenant isolation\<close>

text \<open>
  On the paths that check the owner, a principal is denied on the connection record of
  another principal: the ownership check answers no, and \<^verbatim>\<open>get_client_connection\<close> and
  \<^verbatim>\<open>execute_query\<close> raise the access error and log nothing.
\<close>

lemma non_owner_denied:
  assumes "reg connection_id = Some c" and "user_id c = P2" and "P1 \<noteq> P2"
  shows "user_has_access reg P1 connection_id = Inr False
       \<and> \<not> authorize reg P1 connection_id
       \<and> get_client_connection drv reg P1 connection_id
           = Inl (AccessDeniedError ''User cannot access this database'')
       \<and> execute_query drv run reg history P1 connection_id query
           = (Raised (AccessDeniedError ''User cannot access this database''), history)"
proof -
  from assms have ne: "user_id c \<noteq> P1" by simp
  have a: "user_has_access reg P1 connection_id = Inr False"
    using user_has_access_owner [of reg connection_id c P1] assms(1) ne by simp
  have g: "get_client_connection drv reg P1 connection_id
           = Inl (AccessDeniedError ''User cannot access this database'')"
    using get_client_connection_denied [of reg connection_id c P1] assms(1) ne by simp
  from a g show ?thesis
    by (simp add: authorize_def execute_query_def)
qed







end
